theory Spec2Isabelle
  imports Main
begin

section \<open>Spotify now-playing resolver: data model\<close>

text \<open>
  The embedded module is the Spotify API helper (\<^verbatim>\<open>getAccessToken\<close>,
  \<^verbatim>\<open>fetchNowPlayingFromSpotify\<close>, \<^verbatim>\<open>fetchRecentlyPlayed\<close>, \<^verbatim>\<open>getNowPlaying\<close>,
  \<^verbatim>\<open>getNowPlayingItem\<close>) together with the \<^verbatim>\<open>GET\<close> handler of the route
  \<^verbatim>\<open>api/spotify/now-playing\<close>.

  The module keeps three module-level variables; they form the record \<open>state\<close>, which
  every operation takes and returns. Everything an operation obtains from outside (the
  readings of \<^verbatim>\<open>Date.now()\<close> and the result of each \<^verbatim>\<open>fetch\<close>) is an explicit
  argument, one field per place of the source that reads it. Every operation also
  returns the list of HTTP requests it issued, in order. A rejected promise (a thrown
  exception) is the \<open>Inl\<close> of a sum; the state is returned in that case too, since
  assignments made before the throw persist.

  Calls are modelled one after the other: the interleaving of two concurrent
  invocations at an \<^verbatim>\<open>await\<close> is not part of the model.
\<close>

subsection \<open>JavaScript numbers\<close>

text \<open>
  The numbers of line 77 are IEEE 754 doubles. All of them come from integers (the
  clock, an integer \<^verbatim>\<open>expires_in\<close>, the constants 1000 and 60000), so a number is
  \<^verbatim>\<open>NaN\<close>, an infinity, or a double whose value is an integer. Both zeros are
  \<open>Finite 0\<close>: the code never tells them apart. A reading of the clock is a time
  value, an integer of magnitude at most 8.64e15, which is below \<open>2 ^ 53\<close> and so a
  double as it is; the expiry of NowPlayingCache, the sum of such a reading and the
  time to live in milliseconds, is kept as an integer.
\<close>

datatype number = NaN | Finite int | PosInfinity | NegInfinity

text \<open>The number of binary digits of a positive integer.\<close>

function bitlen :: "int \<Rightarrow> nat" where
  "bitlen n = (if n \<le> 0 then 0 else Suc (bitlen (n div 2)))"
  by pat_completeness auto
termination
  by (relation "measure nat") auto

text \<open>
  The double nearest to an integer, ties to the even significand. Up to \<open>2 ^ 53\<close> in
  magnitude every integer is a double. Above, the magnitude is cut to its 53 leading
  binary digits \<open>q\<close>, the \<open>e\<close> digits that are dropped decide the rounding, and a
  result of \<open>2 ^ 1024\<close> or more is an infinity.
\<close>

definition round_double :: "int \<Rightarrow> number" where
  "round_double v =
     (if \<bar>v\<bar> \<le> 2 ^ 53 then Finite v
      else
        (let m = \<bar>v\<bar>;
             e = bitlen m - 53;
             q = m div 2 ^ e;
             r = m mod 2 ^ e;
             q' = (if 2 * r > 2 ^ e \<or> (2 * r = 2 ^ e \<and> odd q) then q + 1 else q)
         in if q' * 2 ^ e \<ge> 2 ^ 1024
            then (if v < 0 then NegInfinity else PosInfinity)
            else Finite (if v < 0 then - (q' * 2 ^ e) else q' * 2 ^ e)))"

text \<open>The operators \<^verbatim>\<open>+\<close>, \<^verbatim>\<open>*\<close> and binary \<^verbatim>\<open>-\<close> on these numbers.\<close>

fun number_plus :: "number \<Rightarrow> number \<Rightarrow> number" where
  "number_plus (Finite a) (Finite b) = round_double (a + b)"
| "number_plus NaN y = NaN"
| "number_plus x NaN = NaN"
| "number_plus PosInfinity NegInfinity = NaN"
| "number_plus NegInfinity PosInfinity = NaN"
| "number_plus PosInfinity y = PosInfinity"
| "number_plus x PosInfinity = PosInfinity"
| "number_plus NegInfinity y = NegInfinity"
| "number_plus x NegInfinity = NegInfinity"

fun number_uminus :: "number \<Rightarrow> number" where
  "number_uminus NaN = NaN"
| "number_uminus (Finite a) = Finite (- a)"
| "number_uminus PosInfinity = NegInfinity"
| "number_uminus NegInfinity = PosInfinity"

definition number_minus :: "number \<Rightarrow> number \<Rightarrow> number" where
  "number_minus x y = number_plus x (number_uminus y)"

text \<open>The sign of a number that is neither \<^verbatim>\<open>NaN\<close> nor zero: \<open>True\<close> is negative.\<close>

fun number_negative :: "number \<Rightarrow> bool" where
  "number_negative (Finite a) = (a < 0)"
| "number_negative NegInfinity = True"
| "number_negative x = False"

fun number_times :: "number \<Rightarrow> number \<Rightarrow> number" where
  "number_times (Finite a) (Finite b) = round_double (a * b)"
| "number_times NaN y = NaN"
| "number_times x NaN = NaN"
| "number_times x y =
     (if x = Finite 0 \<or> y = Finite 0 then NaN
      else if number_negative x = number_negative y then PosInfinity else NegInfinity)"

subsection \<open>The state of the module\<close>

text \<open>\<^verbatim>\<open>type SpotifyNowPlaying = { artist: string; isPlaying: boolean; title: string }\<close>\<close>

record SpotifyNowPlaying =
  artist :: string
  isPlaying :: bool
  title :: string

text \<open>
  The result type \<^verbatim>\<open>SpotifyNowPlaying | false\<close>: \<open>NotAvailable\<close> is the value
  \<^verbatim>\<open>false\<close>.
\<close>

datatype now_playing = NotAvailable | Track SpotifyNowPlaying

text \<open>
  \<^verbatim>\<open>tokenCache = { access_token: string | null, expires_at: number }\<close>.
  \<open>access_token = None\<close> stands for \<^verbatim>\<open>null\<close> and for \<^verbatim>\<open>undefined\<close> (both
  falsy). \<open>token_expires_at\<close> is a JavaScript number, the result of the arithmetic
  of line 77.
\<close>

record token_cache =
  access_token :: "string option"
  token_expires_at :: number

text \<open>
  \<^verbatim>\<open>nowPlayingCache = { payload: SpotifyNowPlaying | false | null, expires_at: number }\<close>.
  \<open>payload = None\<close> is \<^verbatim>\<open>null\<close>.
\<close>

record now_playing_cache =
  payload :: "now_playing option"
  expires_at :: int

record state =
  tokenCache :: token_cache
  nowPlayingCache :: now_playing_cache
  lastPlayedTrack :: "SpotifyNowPlaying option"

definition initial_state :: state where
  "initial_state =
     \<lparr> tokenCache = \<lparr> access_token = None, token_expires_at = Finite 0 \<rparr>,
       nowPlayingCache = \<lparr> payload = None, expires_at = 0 \<rparr>,
       lastPlayedTrack = None \<rparr>"

definition TOKEN_EXPIRY_BUFFER :: int where
  "TOKEN_EXPIRY_BUFFER = 60 * 1000"

subsection \<open>The outside world\<close>

text \<open>What a call can throw.\<close>

datatype error =
    NetworkError  \<comment> \<open>\<^verbatim>\<open>fetch\<close> rejected\<close>
  | SyntaxError   \<comment> \<open>\<^verbatim>\<open>response.json()\<close> rejected: the body is not JSON\<close>
  | TypeError     \<comment> \<open>a property was read from \<^verbatim>\<open>undefined\<close> or \<^verbatim>\<open>null\<close>\<close>

datatype 'a json_result = JsonThrows | Json 'a

record 'a response =
  status :: int
  body :: "'a json_result"

datatype 'a fetch_result = FetchThrows | Response "'a response"

text \<open>\<^verbatim>\<open>response.ok\<close>: the status is in the range 200 to 299.\<close>

definition ok :: "'a response \<Rightarrow> bool" where
  "ok r = (200 \<le> status r \<and> status r \<le> 299)"

text \<open>
  The JSON bodies have the shapes of the Spotify Web API. A field that may be missing
  or \<^verbatim>\<open>null\<close> is an option, a list may be empty; these are the degrees of freedom
  the code reacts to. \<open>data_expires_in\<close> is the integer written in the body, which
  \<^verbatim>\<open>response.json()\<close> reads as the nearest double. A body of the player endpoint
  without the field \<^verbatim>\<open>item\<close>, such as the error body
  \<^verbatim>\<open>{error: {status, message}}\<close>, has \<open>item = None\<close>.
\<close>

record token_data =
  data_access_token :: "string option"
  data_expires_in :: "int option"

datatype artist_object = ArtistObject (artist_name: string)

datatype track_object = TrackObject (track_name: string) (artists: "artist_object list")

datatype currently_playing =
  CurrentlyPlaying (item: "track_object option") (is_playing: bool)

datatype play_history = PlayHistory (track: track_object)

datatype recently_played = RecentlyPlayed (items: "play_history list option")

text \<open>The requests a call issues; the two player requests carry the bearer token.\<close>

datatype request =
    TokenExchange
  | GetCurrentlyPlaying "string option"
  | GetRecentlyPlayed "string option"

text \<open>
  What one run of \<^verbatim>\<open>getAccessToken\<close> reads: \<^verbatim>\<open>Date.now()\<close> of line 49, the
  result of the POST to the token endpoint, \<^verbatim>\<open>Date.now()\<close> of line 77.
\<close>

record token_io =
  now_check :: int
  exchange :: "token_data fetch_result"
  now_store :: int

text \<open>
  What one run of \<^verbatim>\<open>getNowPlaying\<close> reads: \<^verbatim>\<open>Date.now()\<close> of line 130, the
  inputs of the two runs of \<^verbatim>\<open>getAccessToken\<close>, the results of the two player
  requests, and \<^verbatim>\<open>Date.now()\<close> of the one cache write a run performs (line 156,
  172, 184 or 205).
\<close>

record env =
  now_cache_check :: int
  live_token :: token_io
  live :: "currently_playing fetch_result"
  recent_token :: token_io
  recent :: "recently_played fetch_result"
  now_cache_write :: int

section \<open>Token manager\<close>

text \<open>JavaScript truthiness of the two fields tested at lines 47 and 48.\<close>

definition truthy_string :: "string option \<Rightarrow> bool" where
  "truthy_string t = (case t of None \<Rightarrow> False | Some s \<Rightarrow> s \<noteq> [])"

definition truthy_number :: "number \<Rightarrow> bool" where
  "truthy_number x =
     (case x of NaN \<Rightarrow> False | Finite n \<Rightarrow> n \<noteq> 0
      | PosInfinity \<Rightarrow> True | NegInfinity \<Rightarrow> True)"

text \<open>\<^verbatim>\<open>Date.now() < x\<close>: a reading of the clock against a number.\<close>

definition less_number :: "int \<Rightarrow> number \<Rightarrow> bool" where
  "less_number now x =
     (case x of NaN \<Rightarrow> False | Finite n \<Rightarrow> now < n
      | PosInfinity \<Rightarrow> True | NegInfinity \<Rightarrow> False)"

text \<open>The condition of lines 46 to 50.\<close>

definition tokenValid :: "int \<Rightarrow> token_cache \<Rightarrow> bool" where
  "tokenValid now c =
     (truthy_string (access_token c) \<and> truthy_number (token_expires_at c) \<and>
      less_number now (token_expires_at c))"

text \<open>
  \<^verbatim>\<open>Date.now() + data.expires_in * 1000 - TOKEN_EXPIRY_BUFFER\<close> (line 77), each
  operation rounding to a double. A missing \<^verbatim>\<open>expires_in\<close> is \<^verbatim>\<open>undefined\<close>,
  which the product turns into \<^verbatim>\<open>NaN\<close>.
\<close>

definition newExpiry :: "int \<Rightarrow> int option \<Rightarrow> number" where
  "newExpiry now expires_in =
     number_minus
       (number_plus (Finite now)
          (number_times (case expires_in of None \<Rightarrow> NaN | Some n \<Rightarrow> round_double n)
             (Finite 1000)))
       (Finite TOKEN_EXPIRY_BUFFER)"

definition getAccessToken ::
  "token_io \<Rightarrow> state \<Rightarrow> (error + string option) \<times> state \<times> request list" where
  "getAccessToken io s =
     (if tokenValid (now_check io) (tokenCache s)
      then (Inr (access_token (tokenCache s)), s, [])
      else
        (case exchange io of
           FetchThrows \<Rightarrow> (Inl NetworkError, s, [TokenExchange])
         | Response r \<Rightarrow>
             (case body r of
                JsonThrows \<Rightarrow> (Inl SyntaxError, s, [TokenExchange])
              | Json d \<Rightarrow>
                  (Inr (data_access_token d),
                   s\<lparr> tokenCache :=
                        \<lparr> access_token = data_access_token d,
                          token_expires_at = newExpiry (now_store io) (data_expires_in d) \<rparr> \<rparr>,
                   [TokenExchange]))))"

section \<open>Now-playing resolver\<close>

definition fetchNowPlayingFromSpotify ::
  "token_io \<Rightarrow> currently_playing fetch_result \<Rightarrow> state \<Rightarrow>
     (error + currently_playing response) \<times> state \<times> request list" where
  "fetchNowPlayingFromSpotify io f s =
     (case getAccessToken io s of
        (Inl err, s1, rq) \<Rightarrow> (Inl err, s1, rq)
      | (Inr tok, s1, rq) \<Rightarrow>
          (case f of
             FetchThrows \<Rightarrow> (Inl NetworkError, s1, rq @ [GetCurrentlyPlaying tok])
           | Response r \<Rightarrow> (Inr r, s1, rq @ [GetCurrentlyPlaying tok])))"

definition fetchRecentlyPlayed ::
  "token_io \<Rightarrow> recently_played fetch_result \<Rightarrow> state \<Rightarrow>
     (error + recently_played response) \<times> state \<times> request list" where
  "fetchRecentlyPlayed io f s =
     (case getAccessToken io s of
        (Inl err, s1, rq) \<Rightarrow> (Inl err, s1, rq)
      | (Inr tok, s1, rq) \<Rightarrow>
          (case f of
             FetchThrows \<Rightarrow> (Inl NetworkError, s1, rq @ [GetRecentlyPlayed tok])
           | Response r \<Rightarrow> (Inr r, s1, rq @ [GetRecentlyPlayed tok])))"

text \<open>
  Lines 143 to 149. \<open>Inr None\<close>: the condition of line 143 is false (\<^verbatim>\<open>items\<close>
  missing or empty). \<open>Inl TypeError\<close>: \<^verbatim>\<open>lastTrack.artists[0]\<close> is
  \<^verbatim>\<open>undefined\<close> and \<^verbatim>\<open>.name\<close> throws.
\<close>

definition recentlyPlayedPayload :: "recently_played \<Rightarrow> error + SpotifyNowPlaying option" where
  "recentlyPlayedPayload recentlyPlayed =
     (case items recentlyPlayed of
        None \<Rightarrow> Inr None
      | Some [] \<Rightarrow> Inr None
      | Some (first # _) \<Rightarrow>
          (case artists (track first) of
             [] \<Rightarrow> Inl TypeError
           | a # _ \<Rightarrow>
               Inr (Some \<lparr> artist = artist_name a, isPlaying = False,
                           title = track_name (track first) \<rparr>)))"

text \<open>
  The body of the \<^verbatim>\<open>try\<close> of lines 140 to 161. \<open>Inr (Some p)\<close>: it returned
  \<open>p\<close> at line 159. \<open>Inr None\<close>: it ended without returning. \<open>Inl err\<close>: it threw,
  which the \<^verbatim>\<open>catch\<close> of line 162 receives.
\<close>

definition tryRecentlyPlayed ::
  "int \<Rightarrow> env \<Rightarrow> state \<Rightarrow> (error + SpotifyNowPlaying option) \<times> state \<times> request list" where
  "tryRecentlyPlayed ttl e s =
     (case fetchRecentlyPlayed (recent_token e) (recent e) s of
        (Inl err, s1, rq) \<Rightarrow> (Inl err, s1, rq)
      | (Inr recentlyPlayedResponse, s1, rq) \<Rightarrow>
          (if ok recentlyPlayedResponse then
             (case body recentlyPlayedResponse of
                JsonThrows \<Rightarrow> (Inl SyntaxError, s1, rq)
              | Json recentlyPlayed \<Rightarrow>
                  (case recentlyPlayedPayload recentlyPlayed of
                     Inl err \<Rightarrow> (Inl err, s1, rq)
                   | Inr None \<Rightarrow> (Inr None, s1, rq)
                   | Inr (Some p) \<Rightarrow>
                       (Inr (Some p),
                        s1\<lparr> lastPlayedTrack := Some p,
                            nowPlayingCache :=
                              \<lparr> payload = Some (Track p),
                                expires_at = now_cache_write e + ttl \<rparr> \<rparr>,
                        rq)))
           else (Inr None, s1, rq)))"

text \<open>Lines 170 to 174 and 182 to 186: cache \<^verbatim>\<open>false\<close> and return it.\<close>

definition cacheUnavailable :: "int \<Rightarrow> env \<Rightarrow> state \<Rightarrow> state" where
  "cacheUnavailable ttl e s =
     s\<lparr> nowPlayingCache :=
          \<lparr> payload = Some NotAvailable, expires_at = now_cache_write e + ttl \<rparr> \<rparr>"

text \<open>
  Lines 190 to 198. \<open>Inl TypeError\<close>: \<^verbatim>\<open>song.item\<close> is \<^verbatim>\<open>null\<close> or missing, or
  \<^verbatim>\<open>song.item.artists[0]\<close> is \<^verbatim>\<open>undefined\<close>.
\<close>

definition nowPlayingPayload :: "currently_playing \<Rightarrow> error + SpotifyNowPlaying" where
  "nowPlayingPayload song =
     (case item song of
        None \<Rightarrow> Inl TypeError
      | Some it \<Rightarrow>
          (case artists it of
             [] \<Rightarrow> Inl TypeError
           | a # _ \<Rightarrow>
               Inr \<lparr> artist = artist_name a, isPlaying = is_playing song,
                     title = track_name it \<rparr>))"

text \<open>Lines 127 to 133: the value served from the cache, if any.\<close>

definition cachedPayload :: "env \<Rightarrow> bool \<Rightarrow> state \<Rightarrow> now_playing option" where
  "cachedPayload e forceRefresh s =
     (if forceRefresh then None
      else
        (case payload (nowPlayingCache s) of
           None \<Rightarrow> None
         | Some v \<Rightarrow>
             (if now_cache_check e < expires_at (nowPlayingCache s) then Some v else None)))"

text \<open>Lines 135 to 208: the function from the live fetch on.\<close>

definition resolveLive ::
  "int \<Rightarrow> env \<Rightarrow> state \<Rightarrow> (error + now_playing) \<times> state \<times> request list" where
  "resolveLive ttl e s =
     (case fetchNowPlayingFromSpotify (live_token e) (live e) s of
        (Inl err, s1, rq1) \<Rightarrow> (Inl err, s1, rq1)
      | (Inr response, s1, rq1) \<Rightarrow>
          (if status response = 204 then
             (case tryRecentlyPlayed ttl e s1 of
                (Inr (Some p), s2, rq2) \<Rightarrow> (Inr (Track p), s2, rq1 @ rq2)
              | (Inr None, s2, rq2) \<Rightarrow>
                  (Inr NotAvailable, cacheUnavailable ttl e s2, rq1 @ rq2)
              | (Inl err, s2, rq2) \<Rightarrow>
                  (case lastPlayedTrack s2 of
                     Some t \<Rightarrow> (Inr (Track (t\<lparr> isPlaying := False \<rparr>)), s2, rq1 @ rq2)
                   | None \<Rightarrow> (Inr NotAvailable, cacheUnavailable ttl e s2, rq1 @ rq2)))
           else if status response > 400 then
             (case lastPlayedTrack s1 of
                Some t \<Rightarrow> (Inr (Track (t\<lparr> isPlaying := False \<rparr>)), s1, rq1)
              | None \<Rightarrow> (Inr NotAvailable, cacheUnavailable ttl e s1, rq1))
           else
             (case body response of
                JsonThrows \<Rightarrow> (Inl SyntaxError, s1, rq1)
              | Json song \<Rightarrow>
                  (case nowPlayingPayload song of
                     Inl err \<Rightarrow> (Inl err, s1, rq1)
                   | Inr p \<Rightarrow>
                       (Inr (Track p),
                        s1\<lparr> lastPlayedTrack := Some p,
                            nowPlayingCache :=
                              \<lparr> payload = Some (Track p),
                                expires_at = now_cache_write e + ttl \<rparr> \<rparr>,
                        rq1)))))"

text \<open>
  \<^verbatim>\<open>getNowPlaying\<close>. The first argument is \<^verbatim>\<open>NOW_PLAYING_TTL\<close>, which the
  module reads from the environment (10000 when the variable is not set); it is taken
  to be an integer.
\<close>

definition getNowPlaying ::
  "int \<Rightarrow> env \<Rightarrow> bool \<Rightarrow> state \<Rightarrow> (error + now_playing) \<times> state \<times> request list" where
  "getNowPlaying ttl e forceRefresh s =
     (case cachedPayload e forceRefresh s of
        Some v \<Rightarrow> (Inr v, s, [])
      | None \<Rightarrow> resolveLive ttl e s)"

definition getNowPlayingItem ::
  "int \<Rightarrow> env \<Rightarrow> bool \<Rightarrow> state \<Rightarrow> (error + now_playing) \<times> state \<times> request list" where
  "getNowPlayingItem ttl e forceRefresh s = getNowPlaying ttl e forceRefresh s"

subsection \<open>The route handler\<close>

text \<open>
  \<^verbatim>\<open>GET\<close> of the route: the query parameters \<^verbatim>\<open>refresh\<close> and
  \<^verbatim>\<open>forceRefresh\<close> it reads, and its reply, which is
  the JSON of the result, or status 500 with the error when \<^verbatim>\<open>getNowPlayingItem\<close>
  throws.
\<close>

record search_params =
  param_refresh :: "string option"
  param_forceRefresh :: "string option"

datatype http_reply = Reply200 now_playing | Reply500 error

definition GET ::
  "int \<Rightarrow> env \<Rightarrow> search_params \<Rightarrow> state \<Rightarrow> http_reply \<times> state \<times> request list" where
  "GET ttl e q s =
     (case getNowPlayingItem ttl e
             (param_refresh q = Some ''true'' \<or> param_forceRefresh q = Some ''true'') s of
        (Inr data, s1, rq) \<Rightarrow> (Reply200 data, s1, rq)
      | (Inl err, s1, rq) \<Rightarrow> (Reply500 err, s1, rq))"

subsection \<open>Reachable states\<close>

text \<open>The states the module can be in after any number of calls of \<^verbatim>\<open>getNowPlaying\<close>.\<close>

inductive reachable :: "int \<Rightarrow> state \<Rightarrow> bool" for ttl :: int where
  reachable_initial: "reachable ttl initial_state"
| reachable_call:
    "reachable ttl s \<Longrightarrow> getNowPlaying ttl e forceRefresh s = (out, s1, rq)
       \<Longrightarrow> reachable ttl s1"

subsection \<open>Example inputs\<close>

text \<open>
  Concrete inputs on which the theorems below are evaluated. Times are milliseconds.
  The token endpoint grants the token \<open>''BQD''\<close> for 3600 seconds.
\<close>

definition example_token_reply :: "token_data fetch_result" where
  "example_token_reply =
     Response \<lparr> status = 200,
                body = Json \<lparr> data_access_token = Some ''BQD'',
                              data_expires_in = Some 3600 \<rparr> \<rparr>"

definition example_token_io :: "int \<Rightarrow> token_io" where
  "example_token_io t =
     \<lparr> now_check = t, exchange = example_token_reply, now_store = t \<rparr>"

text \<open>A run in which every reading of the clock gives \<open>t\<close>.\<close>

definition example_env ::
  "int \<Rightarrow> currently_playing fetch_result \<Rightarrow> recently_played fetch_result \<Rightarrow> env" where
  "example_env t l r =
     \<lparr> now_cache_check = t, live_token = example_token_io t, live = l,
       recent_token = example_token_io t, recent = r, now_cache_write = t \<rparr>"

definition example_track :: SpotifyNowPlaying where
  "example_track = \<lparr> artist = ''B'', isPlaying = True, title = ''A'' \<rparr>"

text \<open>Status 200, the track \<open>A\<close> by \<open>B\<close> is playing.\<close>

definition live_playing :: "currently_playing fetch_result" where
  "live_playing =
     Response \<lparr> status = 200,
                body = Json (CurrentlyPlaying
                               (Some (TrackObject ''A'' [ArtistObject ''B''])) True) \<rparr>"

text \<open>Status 200, a track whose list of artists is empty.\<close>

definition live_no_artist :: "currently_playing fetch_result" where
  "live_no_artist =
     Response \<lparr> status = 200,
                body = Json (CurrentlyPlaying (Some (TrackObject ''A'' [])) True) \<rparr>"

text \<open>Status 204: nothing is playing, the body is empty.\<close>

definition live_nothing :: "currently_playing fetch_result" where
  "live_nothing = Response \<lparr> status = 204, body = JsonThrows \<rparr>"

text \<open>Status 500 with a body that is not JSON.\<close>

definition live_error :: "currently_playing fetch_result" where
  "live_error = Response \<lparr> status = 500, body = JsonThrows \<rparr>"

text \<open>Status 400 with the error body of the player endpoint, which has no item.\<close>

definition live_400 :: "currently_playing fetch_result" where
  "live_400 = Response \<lparr> status = 400, body = Json (CurrentlyPlaying None False) \<rparr>"

text \<open>Status 304 with an empty body.\<close>

definition live_304 :: "currently_playing fetch_result" where
  "live_304 = Response \<lparr> status = 304, body = JsonThrows \<rparr>"

definition recent_one :: "recently_played fetch_result" where
  "recent_one =
     Response \<lparr> status = 200,
                body = Json (RecentlyPlayed
                               (Some [PlayHistory (TrackObject ''A'' [ArtistObject ''B''])])) \<rparr>"

definition recent_empty :: "recently_played fetch_result" where
  "recent_empty = Response \<lparr> status = 200, body = Json (RecentlyPlayed (Some [])) \<rparr>"

text \<open>
  The state after \<open>live_playing\<close> was resolved at time 1000000 from the initial state,
  with a time to live of 10000 (lemma \<open>example_state_run\<close>).
\<close>

definition example_state :: state where
  "example_state =
     \<lparr> tokenCache = \<lparr> access_token = Some ''BQD'', token_expires_at = Finite 4540000 \<rparr>,
       nowPlayingCache = \<lparr> payload = Some (Track example_track), expires_at = 1010000 \<rparr>,
       lastPlayedTrack = Some example_track \<rparr>"

lemmas resolver_defs =
  getNowPlaying_def cachedPayload_def resolveLive_def tryRecentlyPlayed_def
  fetchNowPlayingFromSpotify_def fetchRecentlyPlayed_def getAccessToken_def
  tokenValid_def truthy_string_def truthy_number_def less_number_def newExpiry_def
  number_minus_def round_double_def TOKEN_EXPIRY_BUFFER_def cacheUnavailable_def nowPlayingPayload_def
  recentlyPlayedPayload_def ok_def

lemmas example_defs =
  example_env_def example_token_io_def example_token_reply_def example_track_def
  example_state_def initial_state_def live_playing_def live_no_artist_def
  live_nothing_def live_error_def live_400_def live_304_def recent_one_def recent_empty_def

section \<open>Frame lemmas\<close>

text \<open>Obtaining a token and fetching touch the token cache only.\<close>

lemma getAccessToken_frame:
  "getAccessToken io s = (r, s1, rq) \<Longrightarrow>
     lastPlayedTrack s1 = lastPlayedTrack s \<and> nowPlayingCache s1 = nowPlayingCache s"
  by (auto simp: getAccessToken_def split: if_splits fetch_result.splits json_result.splits)

lemma fetchNowPlayingFromSpotify_frame:
  "fetchNowPlayingFromSpotify io f s = (r, s1, rq) \<Longrightarrow>
     lastPlayedTrack s1 = lastPlayedTrack s \<and> nowPlayingCache s1 = nowPlayingCache s"
  unfolding fetchNowPlayingFromSpotify_def
  by (auto split: prod.splits sum.splits fetch_result.splits dest: getAccessToken_frame)

lemma fetchRecentlyPlayed_frame:
  "fetchRecentlyPlayed io f s = (r, s1, rq) \<Longrightarrow>
     lastPlayedTrack s1 = lastPlayedTrack s \<and> nowPlayingCache s1 = nowPlayingCache s"
  unfolding fetchRecentlyPlayed_def
  by (auto split: prod.splits sum.splits fetch_result.splits dest: getAccessToken_frame)

lemma fetchNowPlayingFromSpotify_response:
  "fetchNowPlayingFromSpotify io f s = (Inr r, s1, rq) \<Longrightarrow> f = Response r"
  unfolding fetchNowPlayingFromSpotify_def
  by (auto split: prod.splits sum.splits fetch_result.splits)

lemma fetchRecentlyPlayed_response:
  "fetchRecentlyPlayed io f s = (Inr r, s1, rq) \<Longrightarrow> f = Response r"
  unfolding fetchRecentlyPlayed_def
  by (auto split: prod.splits sum.splits fetch_result.splits)

text \<open>The route handler turns a thrown error into a reply with status 500.\<close>

lemma GET_reply:
  "getNowPlaying ttl e (param_refresh q = Some ''true'' \<or> param_forceRefresh q = Some ''true'') s
     = (out, s1, rq) \<Longrightarrow>
   GET ttl e q s =
     (case out of Inr data \<Rightarrow> (Reply200 data, s1, rq) | Inl err \<Rightarrow> (Reply500 err, s1, rq))"
  by (simp add: GET_def getNowPlayingItem_def split: sum.splits)

lemma example_state_run:
  "getNowPlaying 10000 (example_env 1000000 live_playing recent_empty) False initial_state =
     (Inr (Track example_track), example_state,
      [TokenExchange, GetCurrentlyPlaying (Some ''BQD'')])"
  by (simp add: resolver_defs example_defs)

lemma example_state_reachable: "reachable 10000 example_state"
  using reachable_call[OF reachable_initial example_state_run] .

section \<open>Token reuse\<close>

text \<open>Line 77 is exact as long as no value passes \<open>2 ^ 53\<close>.\<close>

lemma round_double_exact: "\<bar>v\<bar> \<le> 2 ^ 53 \<Longrightarrow> round_double v = Finite v"
  by (simp add: round_double_def)

lemma expiry_exact:
  assumes "0 \<le> now" and "0 \<le> n" and "now + n * 1000 \<le> 2 ^ 53"
  shows "number_minus
           (number_plus (Finite now) (number_times (round_double n) (Finite 1000)))
           (Finite 60000) = Finite (now + n * 1000 - 60000)"
proof -
  from assms have a: "\<bar>n\<bar> \<le> 2 ^ 53" by simp
  from assms have b: "\<bar>n * 1000\<bar> \<le> 2 ^ 53" by simp
  from assms have c: "\<bar>now + n * 1000\<bar> \<le> 2 ^ 53" by simp
  from assms have d: "\<bar>now + n * 1000 - 60000\<bar> \<le> 2 ^ 53" by simp
  show ?thesis
    by (simp add: number_minus_def round_double_exact[OF a] round_double_exact[OF b]
        round_double_exact[OF c] round_double_exact[OF d])
qed

text \<open>
  Above \<open>2 ^ 53\<close> the sum of line 77 is rounded: with the clock at 1000001 and
  \<^verbatim>\<open>expires_in\<close> = 9007199254740 the exact sum 9007199255740001 lies halfway
  between two doubles and becomes 9007199255740000.
\<close>

lemma expiry_rounded:
  "newExpiry 1000001 (Some 9007199254740) = Finite 9007199255680000"
proof -
  have n: "round_double 9007199254740 = Finite 9007199254740"
    by (simp add: round_double_def)
  have p: "round_double (9007199254740 * 1000) = Finite 9007199254740000"
    by (simp add: round_double_def)
  have b1: "bitlen 9007199255740001 = 54" by simp
  have s: "round_double 9007199255740001 = Finite 9007199255740000"
    unfolding round_double_def Let_def by (simp add: b1 del: bitlen.simps)
  have b2: "bitlen 9007199255680000 = 54" by simp
  have m: "round_double (- 60000 + 9007199255740000) = Finite 9007199255680000"
    unfolding round_double_def Let_def by (simp add: b2 del: bitlen.simps)
  show ?thesis
    using n p s m
    by (simp add: newExpiry_def number_minus_def TOKEN_EXPIRY_BUFFER_def del: bitlen.simps)
qed

text \<open>The condition of lines 46 to 50 on the fields of the cache.\<close>

lemma tokenValid_iff:
  "tokenValid now c \<longleftrightarrow>
     (\<exists>tok. access_token c = Some tok \<and> tok \<noteq> []) \<and>
     (token_expires_at c = PosInfinity \<or>
      (\<exists>x. token_expires_at c = Finite x \<and> x \<noteq> 0 \<and> now < x))"
  by (auto simp: tokenValid_def truthy_string_def truthy_number_def less_number_def
      split: option.splits number.splits)

lemma getAccessToken_valid:
  "tokenValid (now_check io) (tokenCache s) \<Longrightarrow>
     getAccessToken io s = (Inr (access_token (tokenCache s)), s, [])"
  by (simp add: getAccessToken_def)

lemma getAccessToken_requests:
  "getAccessToken io s = (r, s1, rq) \<Longrightarrow>
     rq = (if tokenValid (now_check io) (tokenCache s) then [] else [TokenExchange])"
  by (auto simp: getAccessToken_def split: if_splits fetch_result.splits json_result.splits)

lemma fetchNowPlayingFromSpotify_exchanges:
  assumes "fetchNowPlayingFromSpotify io f s = (r, s1, rq)"
    and "getAccessToken io s = (r0, s0, rq0)"
  shows "s1 = s0 \<and> count_list rq TokenExchange = count_list rq0 TokenExchange"
  using assms unfolding fetchNowPlayingFromSpotify_def
  by (cases r0; cases f) auto

lemma fetchRecentlyPlayed_exchanges:
  assumes "fetchRecentlyPlayed io f s = (r, s1, rq)"
    and "getAccessToken io s = (r0, s0, rq0)"
  shows "s1 = s0 \<and> count_list rq TokenExchange = count_list rq0 TokenExchange"
  using assms unfolding fetchRecentlyPlayed_def
  by (cases r0; cases f) auto

lemma tryRecentlyPlayed_valid:
  assumes valid: "tokenValid (now_check (recent_token e)) (tokenCache s)"
    and run: "tryRecentlyPlayed ttl e s = (r, s1, rq)"
  shows "tokenCache s1 = tokenCache s \<and> count_list rq TokenExchange = 0"
proof -
  obtain r0 s0 rq0 where f: "fetchRecentlyPlayed (recent_token e) (recent e) s = (r0, s0, rq0)"
    by (cases "fetchRecentlyPlayed (recent_token e) (recent e) s") auto
  from fetchRecentlyPlayed_exchanges[OF f getAccessToken_valid[OF valid]]
  have s0: "s0 = s" and c0: "count_list rq0 TokenExchange = 0" by simp_all
  from run f have "rq = rq0 \<and> tokenCache s1 = tokenCache s0"
    unfolding tryRecentlyPlayed_def
    by (auto split: sum.splits if_splits json_result.splits option.splits)
  with s0 c0 show ?thesis by simp
qed

lemma resolveLive_exchanges:
  assumes f: "fetchNowPlayingFromSpotify (live_token e) (live e) s = (r0, s0, rq0)"
    and valid: "tokenValid (now_check (recent_token e)) (tokenCache s0)"
    and run: "resolveLive ttl e s = (out, s1, rq)"
  shows "tokenCache s1 = tokenCache s0 \<and>
         count_list rq TokenExchange = count_list rq0 TokenExchange"
proof (cases r0)
  case (Inl err)
  with run f show ?thesis by (auto simp: resolveLive_def)
next
  case (Inr response)
  show ?thesis
  proof (cases "status response = 204")
    case True
    obtain r2 s2 rq2 where t: "tryRecentlyPlayed ttl e s0 = (r2, s2, rq2)"
      by (cases "tryRecentlyPlayed ttl e s0") auto
    from tryRecentlyPlayed_valid[OF valid t]
    have k: "tokenCache s2 = tokenCache s0" "count_list rq2 TokenExchange = 0" by simp_all
    from run f Inr True t have "rq = rq0 @ rq2 \<and> tokenCache s1 = tokenCache s2"
      by (auto simp: resolveLive_def cacheUnavailable_def split: sum.splits option.splits)
    with k show ?thesis by simp
  next
    case False
    with run f Inr have "rq = rq0 \<and> tokenCache s1 = tokenCache s0"
      by (auto simp: resolveLive_def cacheUnavailable_def
          split: if_splits sum.splits option.splits json_result.splits)
    then show ?thesis by simp
  qed
qed

lemma getNowPlaying_token_reused:
  assumes v1: "tokenValid (now_check (live_token e)) (tokenCache s)"
    and v2: "tokenValid (now_check (recent_token e)) (tokenCache s)"
    and run: "getNowPlaying ttl e forceRefresh s = (out, s1, rq)"
  shows "tokenCache s1 = tokenCache s \<and> count_list rq TokenExchange = 0"
proof (cases "cachedPayload e forceRefresh s")
  case (Some v)
  with run show ?thesis by (auto simp: getNowPlaying_def)
next
  case None
  with run have rl: "resolveLive ttl e s = (out, s1, rq)" by (simp add: getNowPlaying_def)
  obtain r0 s0 rq0 where f: "fetchNowPlayingFromSpotify (live_token e) (live e) s = (r0, s0, rq0)"
    by (cases "fetchNowPlayingFromSpotify (live_token e) (live e) s") auto
  from fetchNowPlayingFromSpotify_exchanges[OF f getAccessToken_valid[OF v1]]
  have s0: "s0 = s" and c0: "count_list rq0 TokenExchange = 0" by simp_all
  from v2 s0 have "tokenValid (now_check (recent_token e)) (tokenCache s0)" by simp
  from resolveLive_exchanges[OF f this rl] s0 c0 show ?thesis by simp
qed

lemma getNowPlaying_token_exchanged:
  assumes miss: "cachedPayload e forceRefresh s = None"
    and invalid: "\<not> tokenValid (now_check (live_token e)) (tokenCache s)"
    and reply: "exchange (live_token e) = Response r"
      "body r = Json \<lparr> data_access_token = Some tok, data_expires_in = Some n \<rparr>"
    and w: "newExpiry (now_store (live_token e)) (Some n) = Finite w"
    and tok: "tok \<noteq> []"
    and window: "0 \<le> now_check (recent_token e)" "now_check (recent_token e) < w"
    and run: "getNowPlaying ttl e forceRefresh s = (out, s1, rq)"
  shows "tokenCache s1 = \<lparr> access_token = Some tok, token_expires_at = Finite w \<rparr> \<and>
         count_list rq TokenExchange = 1"
proof -
  let ?c = "\<lparr> access_token = Some tok, token_expires_at = Finite w \<rparr>"
  from miss run have rl: "resolveLive ttl e s = (out, s1, rq)" by (simp add: getNowPlaying_def)
  have g: "getAccessToken (live_token e) s = (Inr (Some tok), s\<lparr> tokenCache := ?c \<rparr>, [TokenExchange])"
    using invalid reply w by (simp add: getAccessToken_def)
  obtain r0 s0 rq0 where f: "fetchNowPlayingFromSpotify (live_token e) (live e) s = (r0, s0, rq0)"
    by (cases "fetchNowPlayingFromSpotify (live_token e) (live e) s") auto
  from fetchNowPlayingFromSpotify_exchanges[OF f g]
  have s0: "s0 = s\<lparr> tokenCache := ?c \<rparr>" and c0: "count_list rq0 TokenExchange = 1" by simp_all
  have "tokenValid (now_check (recent_token e)) (tokenCache s0)"
    using s0 tok window by (auto simp: tokenValid_iff)
  from resolveLive_exchanges[OF f this rl] s0 c0 show ?thesis by simp
qed

section \<open>What a resolution does to LastPlayedTrack\<close>

text \<open>The result of the \<^verbatim>\<open>try\<close> block, by the way it ends.\<close>

lemma nowPlayingPayload_isPlaying:
  "nowPlayingPayload song = Inr p \<Longrightarrow> isPlaying p = is_playing song"
  by (auto simp: nowPlayingPayload_def split: option.splits list.splits)

lemma recentlyPlayedPayload_isPlaying:
  "recentlyPlayedPayload rp = Inr (Some p) \<Longrightarrow> \<not> isPlaying p"
  by (auto simp: recentlyPlayedPayload_def split: option.splits list.splits)

lemma tryRecentlyPlayed_cases:
  assumes run: "tryRecentlyPlayed ttl e s = (r, s1, rq)"
  shows "(\<exists>p. r = Inr (Some p) \<and> lastPlayedTrack s1 = Some p \<and>
            nowPlayingCache s1 =
              \<lparr> payload = Some (Track p), expires_at = now_cache_write e + ttl \<rparr> \<and>
            (\<exists>rr rp. recent e = Response rr \<and> ok rr \<and> body rr = Json rp \<and>
               recentlyPlayedPayload rp = Inr (Some p)))
       \<or> ((r = Inr None \<or> (\<exists>err. r = Inl err)) \<and>
            lastPlayedTrack s1 = lastPlayedTrack s \<and> nowPlayingCache s1 = nowPlayingCache s)"
proof -
  obtain r0 s0 rq0 where f: "fetchRecentlyPlayed (recent_token e) (recent e) s = (r0, s0, rq0)"
    by (cases "fetchRecentlyPlayed (recent_token e) (recent e) s") auto
  from f have fr0: "lastPlayedTrack s0 = lastPlayedTrack s" "nowPlayingCache s0 = nowPlayingCache s"
    using fetchRecentlyPlayed_frame by blast+
  show ?thesis
  proof (cases r0)
    case (Inl err)
    with run f have "r = Inl err" "s1 = s0" by (simp_all add: tryRecentlyPlayed_def)
    with fr0 show ?thesis by simp
  next
    case (Inr rr)
    with f have rc: "recent e = Response rr"
      using fetchRecentlyPlayed_response by blast
    show ?thesis
    proof (cases "ok rr")
      case False
      with run f Inr have "r = Inr None" "s1 = s0" by (simp_all add: tryRecentlyPlayed_def)
      with fr0 show ?thesis by simp
    next
      case True
      show ?thesis
      proof (cases "body rr")
        case JsonThrows
        with run f Inr True have "r = Inl SyntaxError" "s1 = s0"
          by (simp_all add: tryRecentlyPlayed_def)
        with fr0 show ?thesis by simp
      next
        case (Json rp)
        show ?thesis
        proof (cases "recentlyPlayedPayload rp")
          case (Inl err)
          with run f Inr True Json have "r = Inl err" "s1 = s0"
            by (simp_all add: tryRecentlyPlayed_def)
          with fr0 show ?thesis by simp
        next
          case pay: (Inr x)
          show ?thesis
          proof (cases x)
            case None
            with run f Inr True Json pay have "r = Inr None" "s1 = s0"
              by (simp_all add: tryRecentlyPlayed_def)
            with fr0 show ?thesis by simp
          next
            case (Some p)
            with run f Inr True Json pay
            have "r = Inr (Some p)"
              "s1 = s0\<lparr> lastPlayedTrack := Some p,
                       nowPlayingCache :=
                         \<lparr> payload = Some (Track p),
                           expires_at = now_cache_write e + ttl \<rparr> \<rparr>"
              by (simp_all add: tryRecentlyPlayed_def)
            with True Json pay Some rc show ?thesis by simp
          qed
        qed
      qed
    qed
  qed
qed

lemma resolveLive_cases:
  assumes run: "resolveLive ttl e s = (out, s1, rq)"
  shows "(\<exists>p. out = Inr (Track p) \<and> lastPlayedTrack s1 = Some p \<and>
            nowPlayingCache s1 =
              \<lparr> payload = Some (Track p), expires_at = now_cache_write e + ttl \<rparr> \<and>
            ((\<exists>r song. live e = Response r \<and> status r \<noteq> 204 \<and> \<not> status r > 400 \<and>
                body r = Json song \<and> nowPlayingPayload song = Inr p) \<or>
             (\<exists>r rr rp. live e = Response r \<and> status r = 204 \<and> recent e = Response rr \<and>
                ok rr \<and> body rr = Json rp \<and> recentlyPlayedPayload rp = Inr (Some p))))
       \<or> (\<exists>t. out = Inr (Track (t\<lparr> isPlaying := False \<rparr>)) \<and> lastPlayedTrack s = Some t \<and>
            lastPlayedTrack s1 = Some t \<and> nowPlayingCache s1 = nowPlayingCache s)
       \<or> (out = Inr NotAvailable \<and> lastPlayedTrack s1 = lastPlayedTrack s \<and>
            nowPlayingCache s1 =
              \<lparr> payload = Some NotAvailable, expires_at = now_cache_write e + ttl \<rparr>)
       \<or> (\<exists>err. out = Inl err \<and> lastPlayedTrack s1 = lastPlayedTrack s \<and>
            nowPlayingCache s1 = nowPlayingCache s)"
proof -
  obtain r0 s0 rq0 where f: "fetchNowPlayingFromSpotify (live_token e) (live e) s = (r0, s0, rq0)"
    by (cases "fetchNowPlayingFromSpotify (live_token e) (live e) s") auto
  from f have fr0: "lastPlayedTrack s0 = lastPlayedTrack s" "nowPlayingCache s0 = nowPlayingCache s"
    using fetchNowPlayingFromSpotify_frame by blast+
  show ?thesis
  proof (cases r0)
    case (Inl err)
    with run f have "out = Inl err" "s1 = s0" by (simp_all add: resolveLive_def)
    with fr0 show ?thesis by simp
  next
    case (Inr response)
    with f have lv: "live e = Response response"
      using fetchNowPlayingFromSpotify_response by blast
    consider (quiet) "status response = 204"
      | (failed) "status response \<noteq> 204" "status response > 400"
      | (playing) "status response \<noteq> 204" "\<not> status response > 400"
      by blast
    then show ?thesis
    proof cases
      case quiet
      obtain r2 s2 rq2 where t: "tryRecentlyPlayed ttl e s0 = (r2, s2, rq2)"
        by (cases "tryRecentlyPlayed ttl e s0") auto
      from tryRecentlyPlayed_cases[OF t]
      consider (returned) p where "r2 = Inr (Some p)" "lastPlayedTrack s2 = Some p"
          "nowPlayingCache s2 =
             \<lparr> payload = Some (Track p), expires_at = now_cache_write e + ttl \<rparr>"
          "\<exists>rr rp. recent e = Response rr \<and> ok rr \<and> body rr = Json rp \<and>
             recentlyPlayedPayload rp = Inr (Some p)"
        | (ended) "r2 = Inr None" "lastPlayedTrack s2 = lastPlayedTrack s0"
          "nowPlayingCache s2 = nowPlayingCache s0"
        | (caught) err where "r2 = Inl err" "lastPlayedTrack s2 = lastPlayedTrack s0"
          "nowPlayingCache s2 = nowPlayingCache s0"
        by blast
      then show ?thesis
      proof cases
        case returned
        moreover from run f Inr quiet t returned(1) have "out = Inr (Track p)" "s1 = s2"
          by (simp_all add: resolveLive_def)
        ultimately show ?thesis using lv quiet by blast
      next
        case ended
        from run f Inr quiet t ended(1) have "out = Inr NotAvailable" "s1 = cacheUnavailable ttl e s2"
          by (simp_all add: resolveLive_def)
        with ended fr0 show ?thesis by (simp add: cacheUnavailable_def)
      next
        case caught
        show ?thesis
        proof (cases "lastPlayedTrack s2")
          case None
          with run f Inr quiet t caught(1)
          have "out = Inr NotAvailable" "s1 = cacheUnavailable ttl e s2"
            by (simp_all add: resolveLive_def)
          with caught fr0 show ?thesis by (simp add: cacheUnavailable_def)
        next
          case (Some t')
          with run f Inr quiet t caught(1)
          have "out = Inr (Track (t'\<lparr> isPlaying := False \<rparr>))" "s1 = s2"
            by (simp_all add: resolveLive_def)
          moreover from Some caught(2) fr0(1) have "lastPlayedTrack s = Some t'" by simp
          moreover from caught(3) fr0(2) have "nowPlayingCache s2 = nowPlayingCache s" by simp
          moreover from caught(2) fr0(1) have "lastPlayedTrack s2 = lastPlayedTrack s" by simp
          ultimately show ?thesis by simp
        qed
      qed
    next
      case failed
      show ?thesis
      proof (cases "lastPlayedTrack s0")
        case None
        with run f Inr failed
        have "out = Inr NotAvailable" "s1 = cacheUnavailable ttl e s0"
          by (simp_all add: resolveLive_def)
        with fr0 show ?thesis by (simp add: cacheUnavailable_def)
      next
        case (Some t')
        with run f Inr failed
        have "out = Inr (Track (t'\<lparr> isPlaying := False \<rparr>))" "s1 = s0"
          by (simp_all add: resolveLive_def)
        moreover from Some fr0(1) have "lastPlayedTrack s = Some t'" by simp
        ultimately show ?thesis using fr0 by simp
      qed
    next
      case playing
      show ?thesis
      proof (cases "body response")
        case JsonThrows
        with run f Inr playing have "out = Inl SyntaxError" "s1 = s0"
          by (simp_all add: resolveLive_def)
        with fr0 show ?thesis by simp
      next
        case (Json song)
        show ?thesis
        proof (cases "nowPlayingPayload song")
          case (Inl err)
          with run f \<open>r0 = Inr response\<close> playing Json have "out = Inl err" "s1 = s0"
            by (simp_all add: resolveLive_def)
          with fr0 show ?thesis by simp
        next
          case pay: (Inr p)
          with run f \<open>r0 = Inr response\<close> playing Json
          have "out = Inr (Track p)"
            "s1 = s0\<lparr> lastPlayedTrack := Some p,
                     nowPlayingCache :=
                       \<lparr> payload = Some (Track p),
                         expires_at = now_cache_write e + ttl \<rparr> \<rparr>"
            by (simp_all add: resolveLive_def)
          with lv playing Json pay show ?thesis by simp
        qed
      qed
    qed
  qed
qed

text \<open>
  The \<^verbatim>\<open>catch\<close> of line 162: when the \<^verbatim>\<open>try\<close> block throws after a 204 and
  a track is stored, that track is returned with isPlaying false and NowPlayingCache
  is not written.
\<close>

lemma recently_played_throw_falls_back:
  assumes miss: "cachedPayload e forceRefresh s = None"
    and live: "fetchNowPlayingFromSpotify (live_token e) (live e) s = (Inr response, s1, rq1)"
    and quiet: "status response = 204"
    and threw: "tryRecentlyPlayed ttl e s1 = (Inl err, s2, rq2)"
    and stored: "lastPlayedTrack s = Some t"
  shows "getNowPlaying ttl e forceRefresh s =
           (Inr (Track (t\<lparr> isPlaying := False \<rparr>)), s2, rq1 @ rq2)
         \<and> nowPlayingCache s2 = nowPlayingCache s \<and> lastPlayedTrack s2 = Some t"
proof -
  from live have fr1: "lastPlayedTrack s1 = lastPlayedTrack s"
    "nowPlayingCache s1 = nowPlayingCache s"
    using fetchNowPlayingFromSpotify_frame by blast+
  from tryRecentlyPlayed_cases[OF threw]
  have fr2: "lastPlayedTrack s2 = lastPlayedTrack s1" "nowPlayingCache s2 = nowPlayingCache s1"
    by simp_all
  from fr1 fr2 stored have k: "lastPlayedTrack s2 = Some t" "nowPlayingCache s2 = nowPlayingCache s"
    by simp_all
  from miss live quiet threw k(1)
  have "getNowPlaying ttl e forceRefresh s =
          (Inr (Track (t\<lparr> isPlaying := False \<rparr>)), s2, rq1 @ rq2)"
    by (simp add: getNowPlaying_def resolveLive_def)
  with k show ?thesis by simp
qed

text \<open>
  Line 135 is outside every \<^verbatim>\<open>try\<close>: when a token is obtained and the live fetch
  throws, \<^verbatim>\<open>getNowPlaying\<close> throws that error after issuing the request, whether
  or not a track is stored; LastPlayedTrack and NowPlayingCache are unchanged.
\<close>

lemma live_fetch_throw_propagates:
  assumes miss: "cachedPayload e forceRefresh s = None"
    and token: "getAccessToken (live_token e) s = (Inr tok, s1, rq)"
    and throws: "live e = FetchThrows"
  shows "getNowPlaying ttl e forceRefresh s = (Inl NetworkError, s1, rq @ [GetCurrentlyPlaying tok])
         \<and> lastPlayedTrack s1 = lastPlayedTrack s \<and> nowPlayingCache s1 = nowPlayingCache s"
proof -
  from token have fr: "lastPlayedTrack s1 = lastPlayedTrack s"
    "nowPlayingCache s1 = nowPlayingCache s"
    using getAccessToken_frame by blast+
  show ?thesis
    using miss token throws fr
    by (simp add: getNowPlaying_def resolveLive_def fetchNowPlayingFromSpotify_def)
qed

section \<open>Claims\<close>

text \<open>
  C1 (defect of the code). The claim: with a LastPlayedTrack \<open>t\<close> stored, a live
  fetch that throws a network error makes resolve return \<open>t\<close> with isPlaying false
  instead of propagating an exception. The code falls back to the stored track when
  the live fetch answers with a status above 400 (line 178, ``On error, try to return
  last played track if available'') and when the recently-played request throws
  (line 163), but the call \<^verbatim>\<open>fetchNowPlayingFromSpotify()\<close> of line 135 is
  outside every \<^verbatim>\<open>try\<close>, so a live fetch that throws is the one failure that is
  not recovered.

  The code at such an input: \<open>example_state\<close> stores \<open>example_track\<close> and a valid
  token. A forced resolution whose live fetch throws ends in \<open>NetworkError\<close>, and
  the route answers 500; the same resolution with a live status 500 returns the
  stored track with isPlaying false.
\<close>

theorem C1_live_network_error_not_recovered:
  "lastPlayedTrack example_state = Some example_track \<and>
   getNowPlaying 10000 (example_env 1020000 FetchThrows recent_empty) True example_state =
     (Inl NetworkError, example_state, [GetCurrentlyPlaying (Some ''BQD'')]) \<and>
   GET 10000 (example_env 1020000 FetchThrows recent_empty)
       \<lparr> param_refresh = Some ''true'', param_forceRefresh = None \<rparr> example_state =
     (Reply500 NetworkError, example_state, [GetCurrentlyPlaying (Some ''BQD'')]) \<and>
   getNowPlaying 10000 (example_env 1020000 live_error recent_empty) True example_state =
     (Inr (Track (example_track\<lparr> isPlaying := False \<rparr>)), example_state,
      [GetCurrentlyPlaying (Some ''BQD'')])"
  by (simp add: resolver_defs example_defs GET_def getNowPlayingItem_def)

text \<open>
  C2 (defect of the code). The claim: after a 204, when the
  recently-played request fails with a network error or succeeds with an empty list,
  a stored LastPlayedTrack is returned with isPlaying false and NowPlayingCache is not
  written; unavailable is cached and returned only when no LastPlayedTrack exists.
  The \<^verbatim>\<open>catch\<close> of line 162 does this for a request that throws (lemma
  \<open>recently_played_throw_falls_back\<close>). An empty list
  throws nothing, so control reaches line 170, which caches and returns
  \<^verbatim>\<open>false\<close> without looking at \<^verbatim>\<open>lastPlayedTrack\<close>, although its comment reads
  ``If no recently played and no cached track, return false''.

  The code at such an input: \<open>example_state\<close> stores \<open>example_track\<close>; the live fetch
  answers 204 and the recently-played request answers 200 with no items.
\<close>

theorem C2_empty_items_ignores_last_played:
  "lastPlayedTrack example_state = Some example_track \<and>
   getNowPlaying 10000 (example_env 1020000 live_nothing recent_empty) True example_state =
     (Inr NotAvailable,
      example_state\<lparr> nowPlayingCache :=
                       \<lparr> payload = Some NotAvailable, expires_at = 1030000 \<rparr> \<rparr>,
      [GetCurrentlyPlaying (Some ''BQD''), GetRecentlyPlayed (Some ''BQD'')])"
  by (simp add: resolver_defs example_defs)



text \<open>
  C4 (confirmed). Without forceRefresh, when NowPlayingCache holds a value (a track
  or the cached unavailable value) and the clock reads less than its expires_at,
  resolve returns that value, issues no request and leaves the three caches as they
  are.
\<close>

theorem C4_cache_hit:
  assumes "\<not> forceRefresh"
    and "payload (nowPlayingCache s) = Some v"
    and "now_cache_check e < expires_at (nowPlayingCache s)"
  shows "getNowPlaying ttl e forceRefresh s = (Inr v, s, [])"
  using assms by (simp add: getNowPlaying_def cachedPayload_def)

theorem C4_witness:
  "getNowPlaying 10000 (example_env 1005000 FetchThrows FetchThrows) False example_state =
     (Inr (Track example_track), example_state, []) \<and>
   getNowPlaying 10000 (example_env 1005000 FetchThrows FetchThrows) False
       (example_state\<lparr> nowPlayingCache :=
                        \<lparr> payload = Some NotAvailable, expires_at = 1010000 \<rparr> \<rparr>) =
     (Inr NotAvailable,
      example_state\<lparr> nowPlayingCache :=
                       \<lparr> payload = Some NotAvailable, expires_at = 1010000 \<rparr> \<rparr>, [])"
proof -
  let ?e = "example_env 1005000 FetchThrows FetchThrows"
  let ?s = "example_state\<lparr> nowPlayingCache :=
                            \<lparr> payload = Some NotAvailable, expires_at = 1010000 \<rparr> \<rparr>"
  have a: "\<not> False" by simp
  have b: "payload (nowPlayingCache example_state) = Some (Track example_track)"
    by (simp add: example_defs)
  have c: "now_cache_check ?e < expires_at (nowPlayingCache example_state)"
    by (simp add: example_defs)
  have b': "payload (nowPlayingCache ?s) = Some NotAvailable" by simp
  have c': "now_cache_check ?e < expires_at (nowPlayingCache ?s)"
    by (simp add: example_defs)
  from C4_cache_hit[OF a b c, of 10000] C4_cache_hit[OF a b' c', of 10000]
  show ?thesis by simp
qed

text \<open>
  C5 (confirmed). \<^verbatim>\<open>getAccessToken\<close>, with every condition stated on the fields
  of the token cache and on the clock:
  (1) when the cache holds a token (a non-empty string) and the clock, which is not
  negative, reads less than expires_at, the cached token is returned, no request is
  issued and the state is unchanged;
  (2) when the cache holds no token, or the clock reads expires_at or more, exactly
  one request is issued, the token exchange, whatever its result; in general the
  requests are none exactly when a non-empty token is cached whose expires_at is
  infinite, or is not zero and greater than the clock;
  (3) when in case (2) the exchange answers with \<^verbatim>\<open>access_token\<close> and
  \<^verbatim>\<open>expires_in\<close>, the cache becomes that token with
  expires_at = now + expires_in * 1000 - 60000, computed as line 77 computes it, in
  doubles, where now is the clock after the answer; that number is the exact
  integer now + expires_in * 1000 - 60000 whenever now and expires_in are not
  negative and now + expires_in * 1000 is at most \<open>2 ^ 53\<close>;
  (4) a resolution that is not served from NowPlayingCache, finds no token or an
  expired one and obtains a token whose expires_at is \<open>w\<close>, followed by a second
  resolution, with every later check of the token reading a clock below \<open>w\<close>,
  issue exactly one token exchange between them, and the cache still holds that
  token.
\<close>

theorem C5_token_cached_with_buffer:
  "(tokenCache s = \<lparr> access_token = Some tok, token_expires_at = Finite x \<rparr> \<and> tok \<noteq> [] \<and>
      0 \<le> now_check io \<and> now_check io < x \<longrightarrow>
      getAccessToken io s = (Inr (Some tok), s, []))
   \<and> (access_token (tokenCache s) = None \<longrightarrow>
        snd (snd (getAccessToken io s)) = [TokenExchange])
   \<and> (token_expires_at (tokenCache s) = Finite y \<and> y \<le> now_check io \<longrightarrow>
        snd (snd (getAccessToken io s)) = [TokenExchange])
   \<and> snd (snd (getAccessToken io s)) =
        (if (\<exists>t. access_token (tokenCache s) = Some t \<and> t \<noteq> []) \<and>
            (token_expires_at (tokenCache s) = PosInfinity \<or>
             (\<exists>z. token_expires_at (tokenCache s) = Finite z \<and> z \<noteq> 0 \<and> now_check io < z))
         then [] else [TokenExchange])
   \<and> ((access_token (tokenCache s) = None \<or>
         (token_expires_at (tokenCache s) = Finite y \<and> y \<le> now_check io)) \<and>
        exchange io = Response r \<and>
        body r = Json \<lparr> data_access_token = Some tok', data_expires_in = Some n \<rparr> \<longrightarrow>
        getAccessToken io s =
          (Inr (Some tok'),
           s\<lparr> tokenCache :=
                \<lparr> access_token = Some tok',
                  token_expires_at =
                    number_minus
                      (number_plus (Finite (now_store io))
                         (number_times (round_double n) (Finite 1000)))
                      (Finite 60000) \<rparr> \<rparr>,
           [TokenExchange]))
   \<and> (0 \<le> now_store io \<and> 0 \<le> n \<and> now_store io + n * 1000 \<le> 2 ^ 53 \<longrightarrow>
        number_minus
          (number_plus (Finite (now_store io)) (number_times (round_double n) (Finite 1000)))
          (Finite 60000) = Finite (now_store io + n * 1000 - 60000))
   \<and> ((f1 \<or> payload (nowPlayingCache s) = None \<or>
         expires_at (nowPlayingCache s) \<le> now_cache_check e1) \<and>
        (access_token (tokenCache s) = None \<or>
         (token_expires_at (tokenCache s) = Finite y1 \<and> y1 \<le> now_check (live_token e1))) \<and>
        exchange (live_token e1) = Response r1 \<and>
        body r1 = Json \<lparr> data_access_token = Some tok1, data_expires_in = Some n1 \<rparr> \<and>
        tok1 \<noteq> [] \<and>
        number_minus
          (number_plus (Finite (now_store (live_token e1)))
             (number_times (round_double n1) (Finite 1000)))
          (Finite 60000) = Finite w \<and>
        0 \<le> now_check (recent_token e1) \<and> now_check (recent_token e1) < w \<and>
        0 \<le> now_check (live_token e2) \<and> now_check (live_token e2) < w \<and>
        0 \<le> now_check (recent_token e2) \<and> now_check (recent_token e2) < w \<and>
        getNowPlaying ttl e1 f1 s = (out1, s1, rq1) \<and>
        getNowPlaying ttl e2 f2 s1 = (out2, s2, rq2) \<longrightarrow>
        count_list (rq1 @ rq2) TokenExchange = 1 \<and>
        tokenCache s2 = \<lparr> access_token = Some tok1, token_expires_at = Finite w \<rparr>)"
proof -
  let ?expiry = "\<lambda>now k. number_minus
      (number_plus (Finite now) (number_times (round_double k) (Finite 1000))) (Finite 60000)"
  have expiry: "newExpiry now (Some k) = ?expiry now k" for now k
    by (simp add: newExpiry_def TOKEN_EXPIRY_BUFFER_def)
  have requests: "snd (snd (getAccessToken io s)) =
      (if tokenValid (now_check io) (tokenCache s) then [] else [TokenExchange])"
    using getAccessToken_requests[of io s] by (cases "getAccessToken io s") simp
  have one: "getAccessToken io s = (Inr (Some tok), s, [])"
    if "tokenCache s = \<lparr> access_token = Some tok, token_expires_at = Finite x \<rparr>" "tok \<noteq> []"
      "0 \<le> now_check io" "now_check io < x"
  proof -
    from that have "tokenValid (now_check io) (tokenCache s)" by (auto simp: tokenValid_iff)
    from getAccessToken_valid[OF this] that(1) show ?thesis by simp
  qed
  have two_a: "snd (snd (getAccessToken io s)) = [TokenExchange]"
    if "access_token (tokenCache s) = None"
    using that requests by (simp add: tokenValid_iff)
  have two_b: "snd (snd (getAccessToken io s)) = [TokenExchange]"
    if "token_expires_at (tokenCache s) = Finite y" "y \<le> now_check io"
    using that requests by (auto simp: tokenValid_iff)
  have two_c: "snd (snd (getAccessToken io s)) =
        (if (\<exists>t. access_token (tokenCache s) = Some t \<and> t \<noteq> []) \<and>
            (token_expires_at (tokenCache s) = PosInfinity \<or>
             (\<exists>z. token_expires_at (tokenCache s) = Finite z \<and> z \<noteq> 0 \<and> now_check io < z))
         then [] else [TokenExchange])"
    using requests by (simp add: tokenValid_iff)
  have three: "getAccessToken io s =
          (Inr (Some tok'),
           s\<lparr> tokenCache :=
                \<lparr> access_token = Some tok', token_expires_at = ?expiry (now_store io) n \<rparr> \<rparr>,
           [TokenExchange])"
    if h: "access_token (tokenCache s) = None \<or>
         (token_expires_at (tokenCache s) = Finite y \<and> y \<le> now_check io)"
      "exchange io = Response r"
      "body r = Json \<lparr> data_access_token = Some tok', data_expires_in = Some n \<rparr>"
  proof -
    from h(1) have "\<not> tokenValid (now_check io) (tokenCache s)"
      by (auto simp: tokenValid_iff)
    with h(2,3) show ?thesis by (simp add: getAccessToken_def expiry)
  qed
  have exact: "?expiry (now_store io) n = Finite (now_store io + n * 1000 - 60000)"
    if "0 \<le> now_store io" "0 \<le> n" "now_store io + n * 1000 \<le> 2 ^ 53"
    using that by (rule expiry_exact)
  have four: "count_list (rq1 @ rq2) TokenExchange = 1 \<and>
        tokenCache s2 = \<lparr> access_token = Some tok1, token_expires_at = Finite w \<rparr>"
    if h: "f1 \<or> payload (nowPlayingCache s) = None \<or>
         expires_at (nowPlayingCache s) \<le> now_cache_check e1"
      "access_token (tokenCache s) = None \<or>
         (token_expires_at (tokenCache s) = Finite y1 \<and> y1 \<le> now_check (live_token e1))"
      "exchange (live_token e1) = Response r1"
      "body r1 = Json \<lparr> data_access_token = Some tok1, data_expires_in = Some n1 \<rparr>"
      "tok1 \<noteq> []"
      "?expiry (now_store (live_token e1)) n1 = Finite w"
      "0 \<le> now_check (recent_token e1)" "now_check (recent_token e1) < w"
      "0 \<le> now_check (live_token e2)" "now_check (live_token e2) < w"
      "0 \<le> now_check (recent_token e2)" "now_check (recent_token e2) < w"
      "getNowPlaying ttl e1 f1 s = (out1, s1, rq1)"
      "getNowPlaying ttl e2 f2 s1 = (out2, s2, rq2)"
  proof -
    from h(1) have miss: "cachedPayload e1 f1 s = None"
      by (auto simp: cachedPayload_def split: option.splits)
    from h(2) have invalid: "\<not> tokenValid (now_check (live_token e1)) (tokenCache s)"
      by (auto simp: tokenValid_iff)
    from h(6) have w: "newExpiry (now_store (live_token e1)) (Some n1) = Finite w"
      by (simp add: expiry)
    from getNowPlaying_token_exchanged[OF miss invalid h(3) h(4) w h(5) h(7) h(8) h(13)]
    have a: "tokenCache s1 = \<lparr> access_token = Some tok1, token_expires_at = Finite w \<rparr>"
      "count_list rq1 TokenExchange = 1" by simp_all
    from a(1) h(5) h(9) h(10) have v1: "tokenValid (now_check (live_token e2)) (tokenCache s1)"
      by (auto simp: tokenValid_iff)
    from a(1) h(5) h(11) h(12) have v2: "tokenValid (now_check (recent_token e2)) (tokenCache s1)"
      by (auto simp: tokenValid_iff)
    from getNowPlaying_token_reused[OF v1 v2 h(14)] a show ?thesis by simp
  qed
  have p1: "tokenCache s = \<lparr> access_token = Some tok, token_expires_at = Finite x \<rparr> \<and>
      tok \<noteq> [] \<and> 0 \<le> now_check io \<and> now_check io < x \<longrightarrow>
      getAccessToken io s = (Inr (Some tok), s, [])"
    using one by (intro impI) (elim conjE)
  have p2: "access_token (tokenCache s) = None \<longrightarrow>
      snd (snd (getAccessToken io s)) = [TokenExchange]"
    using two_a by (intro impI)
  have p3: "token_expires_at (tokenCache s) = Finite y \<and> y \<le> now_check io \<longrightarrow>
      snd (snd (getAccessToken io s)) = [TokenExchange]"
    using two_b by (intro impI) (elim conjE)
  have p5: "(access_token (tokenCache s) = None \<or>
         (token_expires_at (tokenCache s) = Finite y \<and> y \<le> now_check io)) \<and>
        exchange io = Response r \<and>
        body r = Json \<lparr> data_access_token = Some tok', data_expires_in = Some n \<rparr> \<longrightarrow>
        getAccessToken io s =
          (Inr (Some tok'),
           s\<lparr> tokenCache :=
                \<lparr> access_token = Some tok', token_expires_at = ?expiry (now_store io) n \<rparr> \<rparr>,
           [TokenExchange])"
    using three by (intro impI) (elim conjE)
  have p6: "0 \<le> now_store io \<and> 0 \<le> n \<and> now_store io + n * 1000 \<le> 2 ^ 53 \<longrightarrow>
        ?expiry (now_store io) n = Finite (now_store io + n * 1000 - 60000)"
    using exact by (intro impI) (elim conjE)
  have p7: "(f1 \<or> payload (nowPlayingCache s) = None \<or>
         expires_at (nowPlayingCache s) \<le> now_cache_check e1) \<and>
        (access_token (tokenCache s) = None \<or>
         (token_expires_at (tokenCache s) = Finite y1 \<and> y1 \<le> now_check (live_token e1))) \<and>
        exchange (live_token e1) = Response r1 \<and>
        body r1 = Json \<lparr> data_access_token = Some tok1, data_expires_in = Some n1 \<rparr> \<and>
        tok1 \<noteq> [] \<and>
        ?expiry (now_store (live_token e1)) n1 = Finite w \<and>
        0 \<le> now_check (recent_token e1) \<and> now_check (recent_token e1) < w \<and>
        0 \<le> now_check (live_token e2) \<and> now_check (live_token e2) < w \<and>
        0 \<le> now_check (recent_token e2) \<and> now_check (recent_token e2) < w \<and>
        getNowPlaying ttl e1 f1 s = (out1, s1, rq1) \<and>
        getNowPlaying ttl e2 f2 s1 = (out2, s2, rq2) \<longrightarrow>
        count_list (rq1 @ rq2) TokenExchange = 1 \<and>
        tokenCache s2 = \<lparr> access_token = Some tok1, token_expires_at = Finite w \<rparr>"
    using four by (intro impI) (elim conjE)
  show ?thesis
    by (intro conjI p1 p2 p3 two_c p5 p6 p7)
qed

theorem C5_witness:
  "getAccessToken (example_token_io 1020000) example_state =
     (Inr (Some ''BQD''), example_state, []) \<and>
   snd (snd (getAccessToken (example_token_io 1000000) initial_state)) = [TokenExchange] \<and>
   snd (snd (getAccessToken (example_token_io 5000000) example_state)) = [TokenExchange] \<and>
   getAccessToken (example_token_io 5000000) example_state =
     (Inr (Some ''BQD''),
      example_state\<lparr> tokenCache :=
                       \<lparr> access_token = Some ''BQD'', token_expires_at = Finite 8540000 \<rparr> \<rparr>,
      [TokenExchange]) \<and>
   count_list
     (snd (snd (getNowPlaying 10000 (example_env 5000000 live_nothing recent_one) False
                  example_state)) @
      snd (snd (getNowPlaying 10000 (example_env 5020000 live_nothing recent_one) False
                  (fst (snd (getNowPlaying 10000 (example_env 5000000 live_nothing recent_one)
                               False example_state))))))
     TokenExchange = 1"
proof -
  let ?io = "example_token_io 5000000"
  let ?r = "\<lparr> status = 200,
              body = Json \<lparr> data_access_token = Some ''BQD'', data_expires_in = Some 3600 \<rparr> \<rparr>"
  let ?e1 = "example_env 5000000 live_nothing recent_one"
  let ?e2 = "example_env 5020000 live_nothing recent_one"
  obtain out1 s1 rq1 where run1: "getNowPlaying 10000 ?e1 False example_state = (out1, s1, rq1)"
    by (cases "getNowPlaying 10000 ?e1 False example_state") auto
  obtain out2 s2 rq2 where run2: "getNowPlaying 10000 ?e2 False s1 = (out2, s2, rq2)"
    by (cases "getNowPlaying 10000 ?e2 False s1") auto
  have hit: "tokenCache example_state =
               \<lparr> access_token = Some ''BQD'', token_expires_at = Finite 4540000 \<rparr> \<and>
             ''BQD'' \<noteq> [] \<and> 0 \<le> now_check (example_token_io 1020000) \<and>
             now_check (example_token_io 1020000) < 4540000"
    by (simp add: example_defs)
  have none: "access_token (tokenCache initial_state) = None"
    by (simp add: initial_state_def)
  have expired: "token_expires_at (tokenCache example_state) = Finite 4540000 \<and>
                 4540000 \<le> now_check ?io"
    by (simp add: example_defs)
  have reply: "exchange ?io = Response ?r \<and>
               body ?r = Json \<lparr> data_access_token = Some ''BQD'', data_expires_in = Some 3600 \<rparr>"
    by (simp add: example_defs)
  have range: "0 \<le> now_store ?io \<and> (0::int) \<le> 3600 \<and> now_store ?io + 3600 * 1000 \<le> 2 ^ 53"
    by (simp add: example_defs)
  have stale: "False \<or> payload (nowPlayingCache example_state) = None \<or>
               expires_at (nowPlayingCache example_state) \<le> now_cache_check ?e1"
    by (simp add: example_defs)
  have expired1: "token_expires_at (tokenCache example_state) = Finite 4540000 \<and>
                  4540000 \<le> now_check (live_token ?e1)"
    by (simp add: example_defs)
  have reply1: "exchange (live_token ?e1) = Response ?r \<and> ''BQD'' \<noteq> []"
    by (simp add: example_defs)
  have expiry1: "number_minus
          (number_plus (Finite (now_store (live_token ?e1)))
             (number_times (round_double 3600) (Finite 1000)))
          (Finite 60000) = Finite 8540000"
    by (simp add: number_minus_def round_double_def example_defs)
  have window: "0 \<le> now_check (recent_token ?e1) \<and> now_check (recent_token ?e1) < 8540000 \<and>
                0 \<le> now_check (live_token ?e2) \<and> now_check (live_token ?e2) < 8540000 \<and>
                0 \<le> now_check (recent_token ?e2) \<and> now_check (recent_token ?e2) < 8540000"
    by (simp add: example_defs)
  note c2 = conjunct2
  have w1: "getAccessToken (example_token_io 1020000) example_state =
     (Inr (Some ''BQD''), example_state, [])"
    using hit C5_token_cached_with_buffer[where s = example_state and tok = "''BQD''"
        and x = 4540000 and io = "example_token_io 1020000", THEN conjunct1]
    by blast
  have w2: "snd (snd (getAccessToken (example_token_io 1000000) initial_state)) = [TokenExchange]"
    using none C5_token_cached_with_buffer[where s = initial_state
        and io = "example_token_io 1000000", THEN c2, THEN conjunct1]
    by blast
  have w3: "snd (snd (getAccessToken ?io example_state)) = [TokenExchange]"
    using expired C5_token_cached_with_buffer[where s = example_state and io = ?io
        and y = 4540000, THEN c2, THEN c2, THEN conjunct1]
    by blast
  have stored: "getAccessToken ?io example_state =
     (Inr (Some ''BQD''),
      example_state\<lparr> tokenCache :=
        \<lparr> access_token = Some ''BQD'',
          token_expires_at =
            number_minus
              (number_plus (Finite (now_store ?io)) (number_times (round_double 3600) (Finite 1000)))
              (Finite 60000) \<rparr> \<rparr>,
      [TokenExchange])"
    using expired reply C5_token_cached_with_buffer[where s = example_state and io = ?io
        and y = 4540000 and r = ?r and tok' = "''BQD''" and n = 3600,
        THEN c2, THEN c2, THEN c2, THEN c2, THEN conjunct1]
    by blast
  have exact: "number_minus
        (number_plus (Finite (now_store ?io)) (number_times (round_double 3600) (Finite 1000)))
        (Finite 60000) = Finite (now_store ?io + 3600 * 1000 - 60000)"
    using range C5_token_cached_with_buffer[where io = ?io and n = 3600,
        THEN c2, THEN c2, THEN c2, THEN c2, THEN c2, THEN conjunct1]
    by blast
  from stored exact have w4: "getAccessToken ?io example_state =
     (Inr (Some ''BQD''),
      example_state\<lparr> tokenCache :=
                       \<lparr> access_token = Some ''BQD'', token_expires_at = Finite 8540000 \<rparr> \<rparr>,
      [TokenExchange])"
    by (simp add: example_defs)
  have "count_list (rq1 @ rq2) TokenExchange = 1"
    using stale expired1 reply1 reply expiry1 window run1 run2
      C5_token_cached_with_buffer[where s = example_state
        and ?e1.0 = ?e1 and ?f1.0 = False and ?y1.0 = 4540000 and ?r1.0 = ?r
        and ?tok1.0 = "''BQD''" and ?n1.0 = 3600 and w = 8540000 and ?e2.0 = ?e2
        and ttl = 10000 and ?out1.0 = out1 and ?s1.0 = s1 and ?rq1.0 = rq1 and ?f2.0 = False
        and ?out2.0 = out2 and ?s2.0 = s2 and ?rq2.0 = rq2,
        THEN c2, THEN c2, THEN c2, THEN c2, THEN c2, THEN c2]
    by blast
  with run1 run2 have w5: "count_list
     (snd (snd (getNowPlaying 10000 ?e1 False example_state)) @
      snd (snd (getNowPlaying 10000 ?e2 False
                  (fst (snd (getNowPlaying 10000 ?e1 False example_state))))))
     TokenExchange = 1"
    by simp
  from w1 w2 w3 w4 w5 show ?thesis by blast
qed





text \<open>
  C8 (corrected). The claim: in every reachable state a non-null LastPlayedTrack has
  isPlaying false, it is updated exactly when a definitive track is resolved from the
  live success branch or the recently-played fallback, and no failure branch clears
  it. Line 201 stores the payload of the live response as it is, with
  \<^verbatim>\<open>isPlaying = song.is_playing\<close>; false is forced only on the copy that lines
  165 and 180 return.

  Counterexample: \<open>example_state\<close> is reached from the initial state by resolving a
  live response that says \<^verbatim>\<open>is_playing: true\<close>, and its LastPlayedTrack has
  isPlaying true.
\<close>

theorem C8_counterexample:
  "reachable 10000 example_state \<and> lastPlayedTrack example_state = Some example_track \<and>
   isPlaying example_track"
  using example_state_reachable by (simp add: example_defs)

text \<open>
  C8 as amended: LastPlayedTrack is not kept with isPlaying forced false. A
  resolution from the live success branch stores the payload with isPlaying equal
  to the \<^verbatim>\<open>is_playing\<close> of the response, which can be true; a resolution from the
  recently-played fallback stores it with isPlaying false; false is forced only on
  the value a failure branch returns. In every reachable state a call assigns
  LastPlayedTrack exactly when it resolves a definitive track from one of these two
  branches, to that track, and no branch ever clears it.

  For a call from any state, hence from every reachable one, the theorem says:
  the call is answered from the cache with the state unchanged; or it resolves a
  track \<open>p\<close> from the live response or from the recently-played response, returns it
  and stores it as LastPlayedTrack; or it returns the stored track \<open>t\<close> with isPlaying
  false and keeps \<open>t\<close> stored; or it returns unavailable or throws and keeps
  LastPlayedTrack. A stored track is therefore never cleared. Conversely, whenever
  the live response (status neither 204 nor above 400) or, after a 204, the
  recently-played response yields a payload \<open>p\<close>, LastPlayedTrack is \<open>p\<close> after the
  call.
\<close>

theorem C8_last_played_track_assigned_on_resolution:
  assumes run: "getNowPlaying ttl e forceRefresh s = (out, s1, rq)"
  shows "((\<exists>v. cachedPayload e forceRefresh s = Some v \<and> out = Inr v \<and> s1 = s)
          \<or> (\<exists>p. out = Inr (Track p) \<and> lastPlayedTrack s1 = Some p \<and>
                ((\<exists>r song. live e = Response r \<and> status r \<noteq> 204 \<and> \<not> status r > 400 \<and>
                    body r = Json song \<and> nowPlayingPayload song = Inr p \<and>
                    isPlaying p = is_playing song) \<or>
                 (\<exists>r rr rp. live e = Response r \<and> status r = 204 \<and> recent e = Response rr \<and>
                    ok rr \<and> body rr = Json rp \<and> recentlyPlayedPayload rp = Inr (Some p) \<and>
                    \<not> isPlaying p)))
          \<or> (\<exists>t. out = Inr (Track (t\<lparr> isPlaying := False \<rparr>)) \<and> lastPlayedTrack s = Some t \<and>
                lastPlayedTrack s1 = Some t)
          \<or> ((out = Inr NotAvailable \<or> (\<exists>err. out = Inl err)) \<and>
               lastPlayedTrack s1 = lastPlayedTrack s))
         \<and> (lastPlayedTrack s \<noteq> None \<longrightarrow> lastPlayedTrack s1 \<noteq> None)
         \<and> (\<forall>response s0 rq0 song p.
               cachedPayload e forceRefresh s = None \<and>
               fetchNowPlayingFromSpotify (live_token e) (live e) s = (Inr response, s0, rq0) \<and>
               status response \<noteq> 204 \<and> \<not> status response > 400 \<and>
               body response = Json song \<and> nowPlayingPayload song = Inr p \<longrightarrow>
               lastPlayedTrack s1 = Some p)
         \<and> (\<forall>response s0 rq0 rr s2 rq2 rp p.
               cachedPayload e forceRefresh s = None \<and>
               fetchNowPlayingFromSpotify (live_token e) (live e) s = (Inr response, s0, rq0) \<and>
               status response = 204 \<and>
               fetchRecentlyPlayed (recent_token e) (recent e) s0 = (Inr rr, s2, rq2) \<and>
               ok rr \<and> body rr = Json rp \<and> recentlyPlayedPayload rp = Inr (Some p) \<longrightarrow>
               lastPlayedTrack s1 = Some p)"
proof -
  have kinds: "(\<exists>v. cachedPayload e forceRefresh s = Some v \<and> out = Inr v \<and> s1 = s)
          \<or> (\<exists>p. out = Inr (Track p) \<and> lastPlayedTrack s1 = Some p \<and>
                ((\<exists>r song. live e = Response r \<and> status r \<noteq> 204 \<and> \<not> status r > 400 \<and>
                    body r = Json song \<and> nowPlayingPayload song = Inr p \<and>
                    isPlaying p = is_playing song) \<or>
                 (\<exists>r rr rp. live e = Response r \<and> status r = 204 \<and> recent e = Response rr \<and>
                    ok rr \<and> body rr = Json rp \<and> recentlyPlayedPayload rp = Inr (Some p) \<and>
                    \<not> isPlaying p)))
          \<or> (\<exists>t. out = Inr (Track (t\<lparr> isPlaying := False \<rparr>)) \<and> lastPlayedTrack s = Some t \<and>
                lastPlayedTrack s1 = Some t)
          \<or> ((out = Inr NotAvailable \<or> (\<exists>err. out = Inl err)) \<and>
               lastPlayedTrack s1 = lastPlayedTrack s)"
  proof (cases "cachedPayload e forceRefresh s")
    case (Some v)
    with run have "out = Inr v" "s1 = s" by (simp_all add: getNowPlaying_def)
    with Some show ?thesis by simp
  next
    case None
    with run have rl: "resolveLive ttl e s = (out, s1, rq)" by (simp add: getNowPlaying_def)
    from resolveLive_cases[OF rl] nowPlayingPayload_isPlaying recentlyPlayedPayload_isPlaying
    show ?thesis by (elim disjE exE conjE) (blast+)
  qed
  have kept: "lastPlayedTrack s \<noteq> None \<longrightarrow> lastPlayedTrack s1 \<noteq> None"
    using kinds by auto
  have fromLive: "lastPlayedTrack s1 = Some p"
    if "cachedPayload e forceRefresh s = None"
      "fetchNowPlayingFromSpotify (live_token e) (live e) s = (Inr response, s0, rq0)"
      "status response \<noteq> 204" "\<not> status response > 400"
      "body response = Json song" "nowPlayingPayload song = Inr p"
    for response s0 rq0 song p
    using that run by (auto simp: getNowPlaying_def resolveLive_def)
  have fromRecent: "lastPlayedTrack s1 = Some p"
    if h: "cachedPayload e forceRefresh s = None"
      "fetchNowPlayingFromSpotify (live_token e) (live e) s = (Inr response, s0, rq0)"
      "status response = 204"
      "fetchRecentlyPlayed (recent_token e) (recent e) s0 = (Inr rr, s2, rq2)"
      "ok rr" "body rr = Json rp" "recentlyPlayedPayload rp = Inr (Some p)"
    for response s0 rq0 rr s2 rq2 rp p
  proof -
    from h(4-7) have "tryRecentlyPlayed ttl e s0 =
        (Inr (Some p),
         s2\<lparr> lastPlayedTrack := Some p,
             nowPlayingCache :=
               \<lparr> payload = Some (Track p), expires_at = now_cache_write e + ttl \<rparr> \<rparr>,
         rq2)"
      by (simp add: tryRecentlyPlayed_def)
    with h(1-3) run show ?thesis by (auto simp: getNowPlaying_def resolveLive_def)
  qed
  from kinds kept fromLive fromRecent show ?thesis by blast
qed

theorem C8_witness:
  "lastPlayedTrack
     (fst (snd (getNowPlaying 10000 (example_env 1020000 live_error FetchThrows) False
                  example_state))) \<noteq> None \<and>
   lastPlayedTrack
     (fst (snd (getNowPlaying 10000 (example_env 1000000 live_playing recent_empty) False
                  initial_state))) = Some example_track \<and>
   lastPlayedTrack
     (fst (snd (getNowPlaying 10000 (example_env 1000000 live_nothing recent_one) False
                  initial_state))) = Some \<lparr> artist = ''B'', isPlaying = False, title = ''A'' \<rparr>"
proof -
  let ?ea = "example_env 1020000 live_error FetchThrows"
  let ?eb = "example_env 1000000 live_playing recent_empty"
  let ?ec = "example_env 1000000 live_nothing recent_one"
  let ?s0 = "initial_state\<lparr> tokenCache :=
               \<lparr> access_token = Some ''BQD'', token_expires_at = Finite 4540000 \<rparr> \<rparr>"
  let ?song = "CurrentlyPlaying (Some (TrackObject ''A'' [ArtistObject ''B''])) True"
  let ?rb = "\<lparr> status = 200, body = Json ?song \<rparr>"
  let ?rc = "\<lparr> status = 204, body = JsonThrows \<rparr> :: currently_playing response"
  let ?rp = "RecentlyPlayed (Some [PlayHistory (TrackObject ''A'' [ArtistObject ''B''])])"
  let ?rr = "\<lparr> status = 200, body = Json ?rp \<rparr>"
  obtain oa sa qa where ra: "getNowPlaying 10000 ?ea False example_state = (oa, sa, qa)"
    by (cases "getNowPlaying 10000 ?ea False example_state") auto
  obtain ob sb qb where rb: "getNowPlaying 10000 ?eb False initial_state = (ob, sb, qb)"
    by (cases "getNowPlaying 10000 ?eb False initial_state") auto
  obtain oc sc qc where rc: "getNowPlaying 10000 ?ec False initial_state = (oc, sc, qc)"
    by (cases "getNowPlaying 10000 ?ec False initial_state") auto
  have stored: "lastPlayedTrack example_state \<noteq> None" by (simp add: example_defs)
  have miss_b: "cachedPayload ?eb False initial_state = None"
    by (simp add: cachedPayload_def initial_state_def)
  have live_b: "fetchNowPlayingFromSpotify (live_token ?eb) (live ?eb) initial_state =
                  (Inr ?rb, ?s0, [TokenExchange, GetCurrentlyPlaying (Some ''BQD'')])"
    by (simp add: resolver_defs example_defs)
  have st_b: "status ?rb \<noteq> 204 \<and> \<not> status ?rb > 400 \<and> body ?rb = Json ?song" by simp
  have pay_b: "nowPlayingPayload ?song = Inr example_track"
    by (simp add: nowPlayingPayload_def example_track_def)
  have miss_c: "cachedPayload ?ec False initial_state = None"
    by (simp add: cachedPayload_def initial_state_def)
  have live_c: "fetchNowPlayingFromSpotify (live_token ?ec) (live ?ec) initial_state =
                  (Inr ?rc, ?s0, [TokenExchange, GetCurrentlyPlaying (Some ''BQD'')])"
    by (simp add: resolver_defs example_defs)
  have st_c: "status ?rc = 204" by simp
  have rec_c: "fetchRecentlyPlayed (recent_token ?ec) (recent ?ec) ?s0 =
                 (Inr ?rr, ?s0, [GetRecentlyPlayed (Some ''BQD'')])"
    by (simp add: resolver_defs example_defs)
  have ok_c: "ok ?rr \<and> body ?rr = Json ?rp" by (simp add: ok_def)
  have pay_c: "recentlyPlayedPayload ?rp =
                 Inr (Some \<lparr> artist = ''B'', isPlaying = False, title = ''A'' \<rparr>)"
    by (simp add: recentlyPlayedPayload_def)
  from C8_last_played_track_assigned_on_resolution[OF ra] stored
  have a: "lastPlayedTrack sa \<noteq> None" by blast
  from C8_last_played_track_assigned_on_resolution[OF rb] miss_b live_b st_b pay_b
  have b: "lastPlayedTrack sb = Some example_track" by blast
  from C8_last_played_track_assigned_on_resolution[OF rc] miss_c live_c st_c rec_c ok_c pay_c
  have c: "lastPlayedTrack sc = Some \<lparr> artist = ''B'', isPlaying = False, title = ''A'' \<rparr>"
    by blast
  from a b c ra rb rc show ?thesis by simp
qed







end
